theory Spec2Isabelle
  imports Complex_Main "HOL-Library.Log_Nat"
begin

section \<open>JavaScript values\<close>

text \<open>
  A JavaScript Number is an IEEE 754 double: a rational of 53 significant bits, one of the
  two infinities, or NaN. Negative zero is identified with zero (it differs from zero only
  as the denominator of a division).
\<close>

datatype jsnum = NaN | NInf | Fin rat | PInf

text \<open>
  Rounding of an exact rational to the nearest double, ties to even: the exponent is
  clamped at the subnormal range, and a result of magnitude \<open>2 ^ 1024\<close> overflows to
  an infinity.
\<close>

definition floor_log2 :: "rat \<Rightarrow> int" where
  "floor_log2 x =
     (let (p, q) = quotient_of \<bar>x\<bar>; e = bitlen p - bitlen q
      in if 2 powi e \<le> \<bar>x\<bar> then e else e - 1)"

definition round_half_even :: "rat \<Rightarrow> int" where
  "round_half_even y =
     (let n = \<lfloor>y\<rfloor>; r = y - of_int n
      in if r < 1 / 2 then n else if 1 / 2 < r then n + 1 else if even n then n else n + 1)"

definition round_double :: "rat \<Rightarrow> jsnum" where
  "round_double x =
     (if x = 0 then Fin 0
      else
        let quantum = 2 powi (max (floor_log2 x) (- 1022) - 52);
            r = of_int (round_half_even (x / quantum)) * quantum
        in if of_int (2 ^ 1024) \<le> r then PInf
           else if r \<le> - of_int (2 ^ 1024) then NInf else Fin r)"

text \<open>The comparison operators \<open><\<close>, \<open><=\<close>, \<open>>\<close>, \<open>>=\<close> on numbers: false whenever an operand is NaN.\<close>

fun js_lt :: "jsnum \<Rightarrow> jsnum \<Rightarrow> bool" where
  "js_lt NaN _ = False"
| "js_lt _ NaN = False"
| "js_lt NInf NInf = False"
| "js_lt NInf _ = True"
| "js_lt _ NInf = False"
| "js_lt PInf _ = False"
| "js_lt (Fin x) PInf = True"
| "js_lt (Fin x) (Fin y) = (x < y)"

definition js_le :: "jsnum \<Rightarrow> jsnum \<Rightarrow> bool" where
  "js_le a b = (a \<noteq> NaN \<and> b \<noteq> NaN \<and> \<not> js_lt b a)"

definition js_gt :: "jsnum \<Rightarrow> jsnum \<Rightarrow> bool" where
  "js_gt a b = js_lt b a"

definition js_ge :: "jsnum \<Rightarrow> jsnum \<Rightarrow> bool" where
  "js_ge a b = js_le b a"

text \<open>The arithmetic operators \<open>*\<close> and \<open>/\<close> and \<open>Math.floor\<close>.\<close>

fun sign_num :: "jsnum \<Rightarrow> rat" where
  "sign_num NaN = 0"
| "sign_num NInf = - 1"
| "sign_num PInf = 1"
| "sign_num (Fin x) = sgn x"

definition inf_of_sign :: "rat \<Rightarrow> jsnum" where
  "inf_of_sign s = (if s = 0 then NaN else if 0 < s then PInf else NInf)"

fun js_mul :: "jsnum \<Rightarrow> jsnum \<Rightarrow> jsnum" where
  "js_mul NaN _ = NaN"
| "js_mul _ NaN = NaN"
| "js_mul (Fin x) (Fin y) = round_double (x * y)"
| "js_mul a b = inf_of_sign (sign_num a * sign_num b)"

fun js_div :: "jsnum \<Rightarrow> jsnum \<Rightarrow> jsnum" where
  "js_div NaN _ = NaN"
| "js_div _ NaN = NaN"
| "js_div (Fin x) (Fin y) = (if y = 0 then inf_of_sign (sgn x) else round_double (x / y))"
| "js_div (Fin x) _ = Fin 0"
| "js_div a (Fin y) = inf_of_sign (sign_num a * (if 0 \<le> y then 1 else - 1))"
| "js_div _ _ = NaN"

fun js_floor :: "jsnum \<Rightarrow> jsnum" where
  "js_floor (Fin x) = Fin (of_int \<lfloor>x\<rfloor>)"
| "js_floor a = a"

text \<open>
  The values the connector handles: what a JSON response or a caller can hold in a field
  that the code reads as a number, a string or a flag.
\<close>

datatype jsval = JUndefined | JNull | JBool bool | JNum jsnum | JStr string

text \<open>
  The parts of the runtime that are not defined here: the conversion of a string to a
  number (\<open>Number(s)\<close> and the implicit conversion of an operand), \<open>parseFloat\<close> on a
  string, and \<open>Math.pow\<close>, which the language leaves to the implementation to approximate.
\<close>

record js_runtime =
  StringToNumber :: "string \<Rightarrow> jsnum"
  StringParseFloat :: "string \<Rightarrow> jsnum"
  MathPow :: "jsnum \<Rightarrow> jsnum \<Rightarrow> jsnum"

fun ToNumber :: "js_runtime \<Rightarrow> jsval \<Rightarrow> jsnum" where
  "ToNumber rt JUndefined = NaN"
| "ToNumber rt JNull = Fin 0"
| "ToNumber rt (JBool b) = Fin (if b then 1 else 0)"
| "ToNumber rt (JNum n) = n"
| "ToNumber rt (JStr s) = StringToNumber rt s"

fun truthy_num :: "jsnum \<Rightarrow> bool" where
  "truthy_num NaN = False"
| "truthy_num (Fin x) = (x \<noteq> 0)"
| "truthy_num _ = True"

fun truthy :: "jsval \<Rightarrow> bool" where
  "truthy JUndefined = False"
| "truthy JNull = False"
| "truthy (JBool b) = b"
| "truthy (JNum n) = truthy_num n"
| "truthy (JStr s) = (s \<noteq> [])"

text \<open>\<open>a || b\<close>\<close>

definition js_or :: "jsval \<Rightarrow> jsval \<Rightarrow> jsval" where
  "js_or a b = (if truthy a then a else b)"

text \<open>\<open>parseFloat(v)\<close>: the argument is converted to a string and its longest numeric prefix is read.\<close>

fun parseFloat :: "js_runtime \<Rightarrow> jsval \<Rightarrow> jsnum" where
  "parseFloat rt (JStr s) = StringParseFloat rt s"
| "parseFloat rt (JNum n) = n"
| "parseFloat rt _ = NaN"

text \<open>\<open>a === b\<close>\<close>

fun strict_eq :: "jsval \<Rightarrow> jsval \<Rightarrow> bool" where
  "strict_eq (JNum a) (JNum b) = (a \<noteq> NaN \<and> a = b)"
| "strict_eq a b = (a = b)"

text \<open>
  A reference runtime for evaluating examples: \<open>Math.pow\<close> with an integral exponent
  is the exact power rounded to a double; no string is numeric.
\<close>

definition reference_pow :: "jsnum \<Rightarrow> jsnum \<Rightarrow> jsnum" where
  "reference_pow b e =
     (case (b, e) of
        (Fin x, Fin y) \<Rightarrow>
          if of_int \<lfloor>y\<rfloor> = y \<and> (x \<noteq> 0 \<or> 0 \<le> y) then round_double (x powi \<lfloor>y\<rfloor>) else NaN
      | _ \<Rightarrow> NaN)"

definition reference_runtime :: js_runtime where
  "reference_runtime =
     \<lparr>StringToNumber = (\<lambda>s. NaN), StringParseFloat = (\<lambda>s. NaN), MathPow = reference_pow\<rparr>"

section \<open>connectors/binance/helpers.js\<close>

text \<open>
  \<open>lib/config.js\<close> and \<open>marketsEnum.js\<close> are imported by the connector: the table
  \<open>defaultLeverages\<close> (absent, or an object whose field \<open>binance\<close> is absent or holds a
  value) and the table \<open>mapBinanceMarkets\<close> are parameters of the functions that read them.
\<close>

type_synonym leverages = "(string \<rightharpoonup> jsval) option"

type_synonym markets = "string \<rightharpoonup> string"

text \<open>\<open>const DEFAULT_LEVERAGE = defaultLeverages?.binance || 20\<close>\<close>

definition DEFAULT_LEVERAGE :: "leverages \<Rightarrow> jsval" where
  "DEFAULT_LEVERAGE dl =
     js_or (case dl of None \<Rightarrow> JUndefined
            | Some t \<Rightarrow> (case t ''binance'' of None \<Rightarrow> JUndefined | Some v \<Rightarrow> v))
       (JNum (Fin 20))"

definition MIN_COLLATERAL :: jsnum where
  "MIN_COLLATERAL = Fin 50"

definition convertMarketToBinanceMarket :: "markets \<Rightarrow> string \<Rightarrow> string option" where
  "convertMarketToBinanceMarket mapBinanceMarkets market =
     (case mapBinanceMarkets market of
        Some s \<Rightarrow> if truthy (JStr s) then Some s else None
      | None \<Rightarrow> None)"

definition getBinanceSide :: "bool \<Rightarrow> bool \<Rightarrow> string" where
  "getBinanceSide isLong isClosed =
     (if isClosed then (if isLong then ''SELL'' else ''BUY'')
      else (if isLong then ''BUY'' else ''SELL''))"

text \<open>
  \<open>calculateSizeInMarketToken\<close>; what it prints with \<open>console.log\<close> is not part of the
  value it returns and is left out.
\<close>

definition calculateSizeInMarketToken ::
    "js_runtime \<Rightarrow> leverages \<Rightarrow> jsval \<Rightarrow> jsval \<Rightarrow> jsval \<Rightarrow> jsnum" where
  "calculateSizeInMarketToken rt dl collateral price precision =
     (let numCollateral = ToNumber rt collateral;
          numPrice = ToNumber rt price
      in if \<not> truthy_num numCollateral \<or> numCollateral = NaN \<or> js_le numCollateral (Fin 0)
         then Fin 0
         else if \<not> truthy_num numPrice \<or> numPrice = NaN \<or> js_le numPrice (Fin 0)
         then Fin 0
         else if js_lt numCollateral MIN_COLLATERAL
         then Fin 0
         else
           let totalSize = js_mul numCollateral (ToNumber rt (DEFAULT_LEVERAGE dl));
               quantity = js_div totalSize numPrice;
               multiplier = MathPow rt (Fin 10) (ToNumber rt precision);
               roundedQuantity = js_div (js_floor (js_mul quantity multiplier)) multiplier
           in roundedQuantity)"

section \<open>The Binance connector\<close>

subsection \<open>The exchange client\<close>

text \<open>
  The responses of the exchange, as far as the connector reads them. A field that a
  response does not carry is \<open>JUndefined\<close>.
\<close>

record filter_info =
  f_filterType :: string
  f_minQty :: jsval
  f_notional :: jsval
  f_minNotional :: jsval

record symbol_info =
  s_symbol :: string
  s_quantityPrecision :: jsval
  s_filters :: "filter_info list option"

record exchange_info =
  e_symbols :: "symbol_info list option"

record mark_price =
  p_markPrice :: jsval

record symbol_config =
  c_leverage :: jsval
  c_marginType :: jsval

record order_params =
  op_symbol :: string
  op_side :: string
  op_type :: string
  op_quantity :: jsval
  op_reduceOnly :: bool
  op_workingType :: string
  op_timestamp :: nat

record order_response =
  r_orderId :: jsval
  r_status :: jsval
  r_executedQty :: jsval
  r_avgPrice :: jsval

text \<open>What a rejected request or a failing property access throws.\<close>

datatype error = ApiError string | TypeError

text \<open>
  \<open>usdmClient\<close>: every request either resolves to a response or rejects with an error.
  The connector awaits each request, so one invocation sees one answer per request.
\<close>

record usdm_client =
  getExchangeInfo :: "error + exchange_info"
  getMarkPrice :: "string \<Rightarrow> error + mark_price"
  getFuturesSymbolConfig :: "string \<Rightarrow> error + symbol_config list"
  setLeverage :: "string \<Rightarrow> jsval \<Rightarrow> error + unit"
  setMarginType :: "string \<Rightarrow> string \<Rightarrow> error + unit"
  submitNewOrder :: "order_params \<Rightarrow> error + order_response"

datatype api_call =
    GetExchangeInfo
  | GetMarkPrice string
  | GetFuturesSymbolConfig string
  | SetLeverage string jsval
  | SetMarginType string string
  | SubmitNewOrder order_params

subsection \<open>The state of the module\<close>

text \<open>
  \<open>savedConfigSymbols\<close> maps a symbol to an object with the optional flags
  \<open>leverage\<close> and \<open>marginType\<close>.
\<close>

record saved_config =
  sc_leverage :: "bool option"
  sc_marginType :: "bool option"

text \<open>
  A line printed by \<open>console.log\<close> or \<open>console.error\<close>: its text without the values
  interpolated into it.
\<close>

datatype console_entry = ConsoleLog string | ConsoleError string

text \<open>
  The module-level state: the two collections of the source, the requests sent to the
  exchange so far, and what the connector itself has printed.
\<close>

record connector_state =
  unsupportedMarkets :: "string set"
  savedConfigSymbols :: "string \<rightharpoonup> saved_config"
  calls :: "api_call list"
  console :: "console_entry list"

definition request :: "api_call \<Rightarrow> connector_state \<Rightarrow> connector_state" where
  "request c st = st\<lparr>calls := calls st @ [c]\<rparr>"

definition print :: "console_entry \<Rightarrow> connector_state \<Rightarrow> connector_state" where
  "print l st = st\<lparr>console := console st @ [l]\<rparr>"

text \<open>\<open>{...value, ...objValue}\<close>\<close>

definition spread :: "saved_config \<Rightarrow> saved_config \<Rightarrow> saved_config" where
  "spread v objValue =
     \<lparr>sc_leverage = (case sc_leverage objValue of Some b \<Rightarrow> Some b | None \<Rightarrow> sc_leverage v),
      sc_marginType = (case sc_marginType objValue of Some b \<Rightarrow> Some b | None \<Rightarrow> sc_marginType v)\<rparr>"

definition saveConfig :: "string \<Rightarrow> saved_config \<Rightarrow> connector_state \<Rightarrow> connector_state" where
  "saveConfig symbol objValue st =
     (case savedConfigSymbols st symbol of
        Some v \<Rightarrow> st\<lparr>savedConfigSymbols := (savedConfigSymbols st)(symbol \<mapsto> spread v objValue)\<rparr>
      | None \<Rightarrow> st\<lparr>savedConfigSymbols := (savedConfigSymbols st)(symbol \<mapsto> objValue)\<rparr>)"

text \<open>\<open>if (!unsupportedMarkets.has(market)) unsupportedMarkets.add(market)\<close>\<close>

definition markUnsupported :: "string \<Rightarrow> connector_state \<Rightarrow> connector_state" where
  "markUnsupported market st =
     (if market \<notin> unsupportedMarkets st
      then st\<lparr>unsupportedMarkets := insert market (unsupportedMarkets st)\<rparr> else st)"

subsection \<open>Awaited requests and exceptions\<close>

text \<open>
  A piece of an \<open>async\<close> function: it runs on the module state and either yields a value
  (\<open>Inr\<close>) or throws (\<open>Inl\<close>). \<open>await_request\<close> sends a request and awaits its answer: a
  rejection is thrown at the \<open>await\<close>. \<open>bind\<close> runs the rest of the function on the
  value, and skips it after a throw.
\<close>

type_synonym 'a action = "connector_state \<Rightarrow> (error + 'a) \<times> connector_state"

definition resolve :: "'a \<Rightarrow> 'a action" where
  "resolve x st = (Inr x, st)"

definition throw :: "error \<Rightarrow> 'a action" where
  "throw e st = (Inl e, st)"

definition update :: "(connector_state \<Rightarrow> connector_state) \<Rightarrow> unit action" where
  "update f st = (Inr (), f st)"

definition await_request :: "api_call \<Rightarrow> error + 'a \<Rightarrow> 'a action" where
  "await_request c answer st = (answer, request c st)"

definition bind :: "'a action \<Rightarrow> ('a \<Rightarrow> 'b action) \<Rightarrow> 'b action" where
  "bind m f st = (case m st of (Inl e, st') \<Rightarrow> (Inl e, st') | (Inr x, st') \<Rightarrow> f x st')"

subsection \<open>prepareDataToPlace\<close>

text \<open>The descriptor \<open>{ side, symbol, quantity }\<close> that \<open>prepareDataToPlace\<close> returns.\<close>

record order_descriptor =
  od_side :: string
  od_symbol :: string
  od_quantity :: jsnum

text \<open>
  Lines 166 to 179, inside the \<open>try\<close> block: the leverage and the margin type of the
  symbol are read and corrected, then the descriptor is returned. Reading the first
  element of an empty \<open>symbolConfig\<close> throws a TypeError.
\<close>

definition configureSymbol ::
    "leverages \<Rightarrow> usdm_client \<Rightarrow> string \<Rightarrow> order_descriptor \<Rightarrow> order_descriptor option action" where
  "configureSymbol dl client symbol result =
     bind (await_request (GetFuturesSymbolConfig symbol) (getFuturesSymbolConfig client symbol))
       (\<lambda>symbolConfig.
          case symbolConfig of
            [] \<Rightarrow> throw TypeError
          | c # _ \<Rightarrow>
              (let leverage = c_leverage c;
                   marginType = c_marginType c
               in bind
                    (if \<not> strict_eq leverage (DEFAULT_LEVERAGE dl)
                     then bind
                            (await_request (SetLeverage symbol (DEFAULT_LEVERAGE dl))
                               (setLeverage client symbol (DEFAULT_LEVERAGE dl)))
                            (\<lambda>_. update (saveConfig symbol
                                            \<lparr>sc_leverage = Some True, sc_marginType = None\<rparr>))
                     else resolve ())
                    (\<lambda>_. bind
                            (if \<not> strict_eq marginType (JStr ''ISOLATED'')
                             then bind
                                    (await_request (SetMarginType symbol ''ISOLATED'')
                                       (setMarginType client symbol ''ISOLATED''))
                                    (\<lambda>_. update (saveConfig symbol
                                                    \<lparr>sc_leverage = None, sc_marginType = Some True\<rparr>))
                             else resolve ())
                            (\<lambda>_. resolve (Some result)))))"

text \<open>
  Lines 127 to 134: the minimum quantity and the minimum notional of a symbol, zero when
  the filter is absent.
\<close>

definition minQtyOf :: "js_runtime \<Rightarrow> symbol_info \<Rightarrow> jsnum" where
  "minQtyOf rt marketInfo =
     (let filters = (case s_filters marketInfo of Some fs \<Rightarrow> fs | None \<Rightarrow> []);
          lotSizeFilter = find (\<lambda>f. f_filterType f = ''LOT_SIZE'') filters
      in case lotSizeFilter of Some f \<Rightarrow> parseFloat rt (f_minQty f) | None \<Rightarrow> Fin 0)"

definition minNotionalOf :: "js_runtime \<Rightarrow> symbol_info \<Rightarrow> jsnum" where
  "minNotionalOf rt marketInfo =
     (let filters = (case s_filters marketInfo of Some fs \<Rightarrow> fs | None \<Rightarrow> []);
          minNotionalFilter = find (\<lambda>f. f_filterType f = ''MIN_NOTIONAL'') filters
      in case minNotionalFilter of
           Some f \<Rightarrow> parseFloat rt (js_or (f_notional f) (f_minNotional f))
         | None \<Rightarrow> Fin 0)"

text \<open>
  Lines 142 to 179: the quantity is computed and checked against the two minimums, then
  the symbol is configured. \<open>resolve None\<close> is \<open>return null\<close>.
\<close>

definition sizeOrder ::
    "js_runtime \<Rightarrow> leverages \<Rightarrow> usdm_client \<Rightarrow> bool \<Rightarrow> jsval \<Rightarrow> bool \<Rightarrow> string \<Rightarrow> symbol_info \<Rightarrow>
     jsval \<Rightarrow> order_descriptor option action" where
  "sizeOrder rt dl client isLong size' isClosed symbol marketInfo binancePrice =
     (let minQty = minQtyOf rt marketInfo;
          minNotional = minNotionalOf rt marketInfo;
          side = getBinanceSide isLong isClosed;
          collateral = js_div (ToNumber rt size') (ToNumber rt (DEFAULT_LEVERAGE dl));
          precision = s_quantityPrecision marketInfo;
          quantity = calculateSizeInMarketToken rt dl (JNum collateral) binancePrice precision
      in if \<not> truthy_num quantity \<or> js_le quantity (Fin 0)
         then resolve None
         else if js_gt minQty (Fin 0) \<and> js_lt quantity minQty
         then bind (update (print (ConsoleLog ''Quantity is less than minimum'')))
                (\<lambda>_. resolve None)
         else
           (let notionalValue = js_mul quantity (ToNumber rt binancePrice)
            in if js_gt minNotional (Fin 0) \<and> js_lt notionalValue minNotional
               then bind (update (print (ConsoleLog ''Notional value is less than minimum'')))
                      (\<lambda>_. resolve None)
               else configureSymbol dl client symbol
                      \<lparr>od_side = side, od_symbol = symbol, od_quantity = quantity\<rparr>))"

text \<open>
  Lines 118 to 179: the body of the \<open>try\<close> block. Calling \<open>find\<close> on an absent
  \<open>symbols\<close> throws a TypeError.
\<close>

definition prepareDataToPlace_try ::
    "js_runtime \<Rightarrow> leverages \<Rightarrow> usdm_client \<Rightarrow> bool \<Rightarrow> string \<Rightarrow> jsval \<Rightarrow> bool \<Rightarrow> string \<Rightarrow>
     order_descriptor option action" where
  "prepareDataToPlace_try rt dl client isLong market size' isClosed symbol =
     bind (await_request GetExchangeInfo (getExchangeInfo client))
       (\<lambda>exchangeInfo.
          case e_symbols exchangeInfo of
            None \<Rightarrow> throw TypeError
          | Some symbols \<Rightarrow>
              (case find (\<lambda>s. s_symbol s = symbol) symbols of
                 None \<Rightarrow> bind (update (markUnsupported market)) (\<lambda>_. resolve None)
               | Some marketInfo \<Rightarrow>
                   bind (await_request (GetMarkPrice symbol) (getMarkPrice client symbol))
                     (\<lambda>response.
                        sizeOrder rt dl client isLong size' isClosed symbol marketInfo
                          (p_markPrice response))))"

text \<open>
  \<open>prepareDataToPlace({isLong, market, size, isClosed = false})\<close>: an absent
  \<open>isClosed\<close> is \<open>None\<close>. \<open>Inl\<close> would be an exception that reaches the caller (a
  rejected promise), \<open>Inr None\<close> is the result \<open>null\<close>. The \<open>catch\<close> block turns a
  throw of the \<open>try\<close> block into \<open>null\<close>.
\<close>

definition prepareDataToPlace ::
    "js_runtime \<Rightarrow> leverages \<Rightarrow> markets \<Rightarrow> usdm_client \<Rightarrow> bool \<Rightarrow> string \<Rightarrow> jsval \<Rightarrow> bool option \<Rightarrow>
     order_descriptor option action" where
  "prepareDataToPlace rt dl mapBinanceMarkets client isLong market size' isClosedArg st =
     (let isClosed = (case isClosedArg of None \<Rightarrow> False | Some b \<Rightarrow> b)
      in if market \<in> unsupportedMarkets st then (Inr None, st)
         else
           (case convertMarketToBinanceMarket mapBinanceMarkets market of
              None \<Rightarrow> (Inr None, markUnsupported market st)
            | Some symbol \<Rightarrow>
                (case prepareDataToPlace_try rt dl client isLong market size' isClosed symbol st of
                   (Inl e, st') \<Rightarrow>
                     (Inr None,
                      markUnsupported market (print (ConsoleError ''Error in prepareDataToPlace'') st'))
                 | (Inr r, st') \<Rightarrow> (Inr r, st'))))"

text \<open>The callback of the 24 hour interval: \<open>unsupportedMarkets.clear()\<close>.\<close>

definition clearUnsupported :: "connector_state \<Rightarrow> connector_state" where
  "clearUnsupported st = st\<lparr>unsupportedMarkets := {}\<rparr>"

subsection \<open>placeNewOrder\<close>

text \<open>
  \<open>placeNewOrder({side, symbol, quantity})\<close>; \<open>now\<close> is the value of \<open>Date.now()\<close>.
  The parameter \<open>quantity\<close> of the request is \<open>quantity.toString()\<close>: the model keeps the
  value that is printed. \<open>Inr None\<close> is the result \<open>undefined\<close>, \<open>Inl\<close> an exception
  thrown to the caller.
\<close>

definition placeNewOrder ::
    "js_runtime \<Rightarrow> usdm_client \<Rightarrow> nat \<Rightarrow> string \<Rightarrow> string \<Rightarrow> jsval \<Rightarrow>
     order_response option action" where
  "placeNewOrder rt client now side symbol quantity st =
     (if \<not> truthy quantity \<or> js_le (ToNumber rt quantity) (Fin 0)
      then (Inr None, print (ConsoleError ''Invalid quantity:'') st)
      else
        let orderParams = \<lparr>op_symbol = symbol, op_side = side, op_type = ''MARKET'',
                             op_quantity = quantity, op_reduceOnly = False,
                             op_workingType = ''MARK_PRICE'', op_timestamp = now\<rparr>;
            st1 = print (ConsoleLog ''Attempting to place order:'') st;
            st2 = request (SubmitNewOrder orderParams) st1
        in case submitNewOrder client orderParams of
             Inr response \<Rightarrow> (Inr (Some response), print (ConsoleLog ''Order placed successfully:'') st2)
           | Inl e \<Rightarrow> (Inl e, print (ConsoleError ''Error placing order:'') st2))"

subsection \<open>A sequence of operations on the module\<close>

text \<open>
  Between two calls the module state is changed only by the calls themselves and by the
  24 hour reset. Every call brings the answers the exchange gives to it.
\<close>

datatype event =
    Prepare usdm_client bool string jsval "bool option"
  | PlaceOrder usdm_client nat string string jsval
  | Reset

fun step :: "js_runtime \<Rightarrow> leverages \<Rightarrow> markets \<Rightarrow> connector_state \<Rightarrow> event \<Rightarrow> connector_state" where
  "step rt dl mp st (Prepare client isLong market size' isClosed) =
     snd (prepareDataToPlace rt dl mp client isLong market size' isClosed st)"
| "step rt dl mp st (PlaceOrder client now side symbol quantity) =
     snd (placeNewOrder rt client now side symbol quantity st)"
| "step rt dl mp st Reset = clearUnsupported st"

definition run :: "js_runtime \<Rightarrow> leverages \<Rightarrow> markets \<Rightarrow> connector_state \<Rightarrow> event list \<Rightarrow> connector_state" where
  "run rt dl mp st evs = foldl (step rt dl mp) st evs"

subsection \<open>BinanceWebSocket\<close>

definition WS_RECONNECT_DELAY :: nat where
  "WS_RECONNECT_DELAY = 1000"

definition WS_MAX_RECONNECT_ATTEMPTS :: nat where
  "WS_MAX_RECONNECT_ATTEMPTS = 5"

typedecl socket

typedecl interval

text \<open>The fields of a \<open>BinanceWebSocket\<close>; the constructor gives \<open>newBinanceWebSocket\<close>.\<close>

record BinanceWebSocket =
  ws :: "socket option"
  pingInterval :: "interval option"
  reconnectAttempts :: nat
  isConnecting :: bool

definition newBinanceWebSocket :: BinanceWebSocket where
  "newBinanceWebSocket =
     \<lparr>ws = None, pingInterval = None, reconnectAttempts = 0, isConnecting = False\<rparr>"

text \<open>
  What a method leaves behind outside the object: the callbacks handed to
  \<open>setTimeout\<close>, each with its delay in milliseconds, and the lines printed.
\<close>

datatype callback = CallConnect

record event_loop =
  timeouts :: "(callback \<times> nat) list"
  printed :: "console_entry list"

definition reconnect :: "BinanceWebSocket \<Rightarrow> event_loop \<Rightarrow> BinanceWebSocket \<times> event_loop" where
  "reconnect this loop =
     (if WS_MAX_RECONNECT_ATTEMPTS \<le> reconnectAttempts this
      then (this, loop\<lparr>printed := printed loop @ [ConsoleError ''Max reconnection attempts reached. Please check your connection.'']\<rparr>)
      else
        let this' = this\<lparr>reconnectAttempts := reconnectAttempts this + 1\<rparr>
        in (this',
            loop\<lparr>printed := printed loop @ [ConsoleLog ''Attempting to reconnect''],
                 timeouts := timeouts loop @ [(CallConnect, WS_RECONNECT_DELAY * reconnectAttempts this')]\<rparr>))"

text \<open>
  \<open>n\<close> calls of \<open>reconnect\<close> in a row: no connection opens in between (an open
  connection resets \<open>reconnectAttempts\<close>).
\<close>

fun reconnect_times :: "nat \<Rightarrow> BinanceWebSocket \<Rightarrow> event_loop \<Rightarrow> BinanceWebSocket \<times> event_loop" where
  "reconnect_times 0 this loop = (this, loop)"
| "reconnect_times (Suc n) this loop =
     (case reconnect_times n this loop of (this', loop') \<Rightarrow> reconnect this' loop')"

section \<open>Example inputs\<close>

text \<open>One market, its symbol on the exchange, and an exchange that answers every request.\<close>

definition example_markets :: markets where
  "example_markets = [''BTC'' \<mapsto> ''BTCUSDT'']"

definition example_symbol :: symbol_info where
  "example_symbol =
     \<lparr>s_symbol = ''BTCUSDT'', s_quantityPrecision = JNum (Fin 3),
      s_filters = Some
        [\<lparr>f_filterType = ''LOT_SIZE'', f_minQty = JNum (Fin 1), f_notional = JUndefined,
          f_minNotional = JUndefined\<rparr>,
         \<lparr>f_filterType = ''MIN_NOTIONAL'', f_minQty = JUndefined, f_notional = JNum (Fin 5),
          f_minNotional = JUndefined\<rparr>]\<rparr>"

definition example_client :: usdm_client where
  "example_client =
     \<lparr>getExchangeInfo = Inr \<lparr>e_symbols = Some [example_symbol]\<rparr>,
      getMarkPrice = (\<lambda>s. Inr \<lparr>p_markPrice = JNum (Fin 50000)\<rparr>),
      getFuturesSymbolConfig = (\<lambda>s. Inr [\<lparr>c_leverage = JNum (Fin 10), c_marginType = JStr ''CROSSED''\<rparr>]),
      setLeverage = (\<lambda>s l. Inr ()),
      setMarginType = (\<lambda>s m. Inr ()),
      submitNewOrder = (\<lambda>ps. Inl (ApiError ''rejected''))\<rparr>"

text \<open>An exchange that rejects the request for its metadata.\<close>

definition failing_client :: usdm_client where
  "failing_client = example_client\<lparr>getExchangeInfo := Inl (ApiError ''timeout'')\<rparr>"

text \<open>The module state after loading: both collections empty.\<close>

definition initial_state :: connector_state where
  "initial_state = \<lparr>unsupportedMarkets = {}, savedConfigSymbols = Map.empty, calls = [], console = []\<rparr>"

text \<open>The module state after a call for the market BTC that the exchange has failed.\<close>

definition after_failure :: connector_state where
  "after_failure =
     snd (prepareDataToPlace reference_runtime None example_markets failing_client True ''BTC''
            (JNum (Fin 1000)) None initial_state)"

definition empty_loop :: event_loop where
  "empty_loop = \<lparr>timeouts = [], printed = []\<rparr>"

section \<open>Invariants of actions\<close>

text \<open>An action that removes no market from \<open>unsupportedMarkets\<close>.\<close>

definition keeps_unsupported :: "'a action \<Rightarrow> bool" where
  "keeps_unsupported m = (\<forall>st. unsupportedMarkets st \<subseteq> unsupportedMarkets (snd (m st)))"

section \<open>Properties of the numbers\<close>

subsection \<open>Rounding is to a nearest double\<close>

text \<open>
  \<open>floor_log2\<close> is the binary exponent of its argument, and a finite result of
  \<open>round_double\<close> is a multiple of the spacing of the doubles at that exponent, at most
  half a spacing away from the exact value.
\<close>

lemma bitlen_powi:
  assumes "0 < p"
  shows "(2::rat) powi (bitlen p - 1) \<le> of_int p \<and> of_int p < (2::rat) powi bitlen p"
proof -
  have b: "1 \<le> bitlen p" using assms by (auto simp: bitlen_alt_def)
  from bitlen_bounds [OF assms] have "2 ^ nat (bitlen p - 1) \<le> p" and "p < 2 ^ nat (bitlen p)"
    by auto
  then have "(of_int (2 ^ nat (bitlen p - 1)) :: rat) \<le> of_int p"
    and "(of_int p :: rat) < of_int (2 ^ nat (bitlen p))"
    by (simp_all only: of_int_le_iff of_int_less_iff)
  then show ?thesis
    using b by (simp add: power_int_def)
qed

lemma floor_log2_bounds:
  assumes "x \<noteq> 0"
  shows "2 powi floor_log2 x \<le> \<bar>x\<bar> \<and> \<bar>x\<bar> < 2 powi (floor_log2 x + 1)"
proof -
  obtain p q where pq: "quotient_of \<bar>x\<bar> = (p, q)"
    by (cases "quotient_of \<bar>x\<bar>")
  have q: "0 < q" using pq by (rule quotient_of_denom_pos)
  have x: "\<bar>x\<bar> = of_int p / of_int q" using pq by (rule quotient_of_div)
  have "0 < \<bar>x\<bar>" using assms by simp
  then have p: "0 < p" unfolding x using q by (simp add: zero_less_divide_iff)
  define e where "e = bitlen p - bitlen q"
  have qr: "(0::rat) < of_int q" using q by simp
  from bitlen_powi [OF p] bitlen_powi [OF q]
  have P: "(2::rat) powi (bitlen p - 1) \<le> of_int p" "of_int p < (2::rat) powi bitlen p"
    and Q: "(2::rat) powi (bitlen q - 1) \<le> of_int q" "of_int q < (2::rat) powi bitlen q"
    by auto
  have up: "\<bar>x\<bar> < 2 powi (e + 1)"
  proof -
    have "of_int p / of_int q < (2::rat) powi bitlen p / of_int q"
      using P(2) qr by (simp add: divide_strict_right_mono)
    also have "\<dots> \<le> 2 powi bitlen p / 2 powi (bitlen q - 1)"
      using Q(1) by (intro divide_left_mono) (auto simp: zero_less_power_int intro!: mult_pos_pos qr)
    also have "\<dots> = 2 powi (e + 1)"
      by (simp add: e_def power_int_diff [symmetric] algebra_simps)
    finally show ?thesis unfolding x .
  qed
  have low: "2 powi (e - 1) < \<bar>x\<bar>"
  proof -
    have "(2::rat) powi (e - 1) = 2 powi (bitlen p - 1) / 2 powi bitlen q"
      by (simp add: e_def power_int_diff [symmetric] algebra_simps)
    also have "\<dots> \<le> of_int p / 2 powi bitlen q"
      using P(1) by (intro divide_right_mono) (auto simp: zero_le_power_int)
    also have "\<dots> < of_int p / of_int q"
      using Q(2) p qr by (intro divide_strict_left_mono) (auto intro!: mult_pos_pos simp: zero_less_power_int)
    finally show ?thesis unfolding x .
  qed
  have f: "floor_log2 x = (if 2 powi e \<le> \<bar>x\<bar> then e else e - 1)"
    by (simp add: floor_log2_def pq e_def Let_def)
  show ?thesis
  proof (cases "2 powi e \<le> \<bar>x\<bar>")
    case True
    with f up show ?thesis by simp
  next
    case False
    with f low show ?thesis by (simp add: less_imp_le)
  qed
qed


lemma round_half_even_nearest: "\<bar>of_int (round_half_even y) - y\<bar> \<le> 1 / 2"
proof -
  have "of_int \<lfloor>y\<rfloor> \<le> y" and "y < of_int \<lfloor>y\<rfloor> + 1"
    by linarith+
  then show ?thesis
    by (auto simp: round_half_even_def Let_def abs_le_iff)
qed

lemma round_double_nearest:
  assumes "round_double x = Fin r" and "x \<noteq> 0"
  defines "quantum \<equiv> 2 powi (max (floor_log2 x) (- 1022) - 52)"
  shows "r = of_int (round_half_even (x / quantum)) * quantum \<and> \<bar>r - x\<bar> \<le> quantum / 2"
proof -
  have q: "0 < quantum" by (simp add: quantum_def zero_less_power_int)
  have r: "r = of_int (round_half_even (x / quantum)) * quantum"
    using assms(1,2) by (simp add: round_double_def Let_def quantum_def split: if_splits)
  have "\<bar>of_int (round_half_even (x / quantum)) - x / quantum\<bar> \<le> 1 / 2"
    by (rule round_half_even_nearest)
  then have "\<bar>of_int (round_half_even (x / quantum)) - x / quantum\<bar> * quantum \<le> 1 / 2 * quantum"
    using q by (intro mult_right_mono) auto
  moreover have "\<bar>of_int (round_half_even (x / quantum)) - x / quantum\<bar> * quantum = \<bar>r - x\<bar>"
  proof -
    have "(of_int (round_half_even (x / quantum)) - x / quantum) * quantum = r - x"
      using q unfolding r by (simp add: left_diff_distrib)
    then have "\<bar>r - x\<bar> = \<bar>of_int (round_half_even (x / quantum)) - x / quantum\<bar> * \<bar>quantum\<bar>"
      by (simp only: abs_mult [symmetric])
    then show ?thesis
      using q by simp
  qed
  ultimately show ?thesis
    using r by simp
qed

subsection \<open>Comparisons and signs\<close>

lemma round_half_even_nonneg: "0 \<le> y \<Longrightarrow> 0 \<le> round_half_even y"
  by (auto simp: round_half_even_def Let_def)

lemma round_double_nonneg:
  assumes "0 \<le> x"
  shows "round_double x = PInf \<or> (\<exists>r. round_double x = Fin r \<and> 0 \<le> r)"
proof (cases "x = 0")
  case True
  then show ?thesis by (simp add: round_double_def)
next
  case False
  define quantum :: rat where "quantum = 2 powi (max (floor_log2 x) (- 1022) - 52)"
  have q: "0 < quantum" by (simp add: quantum_def zero_less_power_int)
  define r where "r = of_int (round_half_even (x / quantum)) * quantum"
  have "0 \<le> x / quantum" using assms q by simp
  then have "0 \<le> round_half_even (x / quantum)" by (rule round_half_even_nonneg)
  then have r: "0 \<le> r" using q by (simp add: r_def)
  have "round_double x = (if of_int (2 ^ 1024) \<le> r then PInf
           else if r \<le> - of_int (2 ^ 1024) then NInf else Fin r)"
    using False by (simp add: round_double_def Let_def quantum_def r_def)
  moreover have "\<not> r \<le> - of_int (2 ^ 1024)" using r by simp
  ultimately show ?thesis using r by auto
qed

lemma js_mul_positive:
  assumes "js_gt a (Fin 0)" and "js_gt b (Fin 0)"
  shows "js_ge (js_mul a b) (Fin 0)"
proof (cases a)
  case (Fin x)
  note a = this
  show ?thesis
  proof (cases b)
    case (Fin y)
    with a assms have "0 \<le> x * y" by (simp add: js_gt_def)
    from round_double_nonneg [OF this] show ?thesis
      using a Fin by (auto simp: js_ge_def js_le_def)
  qed (use a assms in \<open>auto simp: js_gt_def js_ge_def js_le_def inf_of_sign_def\<close>)
next
  case PInf
  with assms show ?thesis
    by (cases b) (auto simp: js_gt_def js_ge_def js_le_def inf_of_sign_def)
qed (use assms in \<open>auto simp: js_gt_def\<close>)

lemma js_lt_positive:
  "js_ge a (Fin 0) \<Longrightarrow> js_lt a b \<Longrightarrow> js_gt b (Fin 0)"
  by (cases a; cases b) (auto simp: js_gt_def js_ge_def js_le_def)

lemma js_lt_NaN: "\<not> js_lt a NaN"
  by (cases a) auto

lemma js_gt_imp_ge: "js_gt a (Fin 0) \<Longrightarrow> js_ge a (Fin 0)"
  by (cases a) (auto simp: js_gt_def js_ge_def js_le_def)

lemma js_not_lt_ge:
  "a \<noteq> NaN \<Longrightarrow> b \<noteq> NaN \<Longrightarrow> \<not> js_lt a b \<Longrightarrow> js_ge a b"
  by (simp add: js_ge_def js_le_def)

lemma js_ge_trans0:
  "js_ge a (Fin 0) \<Longrightarrow> b \<noteq> NaN \<Longrightarrow> \<not> js_gt b (Fin 0) \<Longrightarrow> js_ge a b"
  by (cases a; cases b) (auto simp: js_gt_def js_ge_def js_le_def)

lemma calculateSize_positive_price:
  "js_gt (calculateSizeInMarketToken rt dl collateral price precision) (Fin 0) \<Longrightarrow>
   js_gt (ToNumber rt price) (Fin 0)"
  by (cases "ToNumber rt price")
     (auto simp: calculateSizeInMarketToken_def Let_def js_gt_def js_le_def split: if_splits)

lemma accepted_quantity:
  "\<not> (\<not> truthy_num q \<or> js_le q (Fin 0)) \<longleftrightarrow> js_gt q (Fin 0)"
  by (cases q) (auto simp: js_gt_def js_le_def)

section \<open>Properties of helpers.js\<close>

text \<open>
  C9: \<open>getBinanceSide\<close> is defined on all four combinations of its two flags: opening a
  long buys, closing a long sells, opening a short sells, closing a short buys.
\<close>

theorem getBinanceSide_table:
  "getBinanceSide True False = ''BUY'' \<and> getBinanceSide True True = ''SELL'' \<and>
   getBinanceSide False False = ''SELL'' \<and> getBinanceSide False True = ''BUY''"
  by (simp add: getBinanceSide_def)

text \<open>
  C5: \<open>calculateSizeInMarketToken\<close> returns 0 for every collateral below the minimum of
  50, whatever the price and the precision, and whenever the collateral or the price is
  not a number or is at most 0.
\<close>

theorem calculateSize_rejects:
  assumes "js_lt (ToNumber rt collateral) (Fin 50)
           \<or> ToNumber rt collateral = NaN \<or> js_le (ToNumber rt collateral) (Fin 0)
           \<or> ToNumber rt price = NaN \<or> js_le (ToNumber rt price) (Fin 0)"
  shows "calculateSizeInMarketToken rt dl collateral price precision = Fin 0"
  using assms by (auto simp: calculateSizeInMarketToken_def Let_def MIN_COLLATERAL_def)

theorem calculateSize_rejects_witness:
  "calculateSizeInMarketToken reference_runtime None (JNum (Fin 49)) (JNum (Fin 100)) (JNum (Fin 2)) = Fin 0
   \<and> calculateSizeInMarketToken reference_runtime None (JStr ''abc'') (JNum (Fin 100)) (JNum (Fin 2)) = Fin 0
   \<and> calculateSizeInMarketToken reference_runtime None (JNum (Fin 1000)) (JNum (Fin (- 3))) (JNum (Fin 2)) = Fin 0"
  using calculateSize_rejects [of reference_runtime "JNum (Fin 49)" "JNum (Fin 100)" None "JNum (Fin 2)"]
    calculateSize_rejects [of reference_runtime "JStr ''abc''" "JNum (Fin 100)" None "JNum (Fin 2)"]
    calculateSize_rejects [of reference_runtime "JNum (Fin 1000)" "JNum (Fin (- 3))" None "JNum (Fin 2)"]
  by (simp add: MIN_COLLATERAL_def reference_runtime_def js_le_def)

text \<open>
  The example of the source comment: collateral 0.5 at price 100000 with leverage 20 and
  precision 4. The claim that the function returns 0.0001 there fails: 0.5 is below the minimum
  collateral.
\<close>

theorem example_half_unit_counterexample:
  "calculateSizeInMarketToken reference_runtime (Some [''binance'' \<mapsto> JNum (Fin 20)])
     (JNum (Fin (1 / 2))) (JNum (Fin 100000)) (JNum (Fin 4)) \<noteq> round_double (1 / 10000)"
proof -
  have "round_double (1 / 10000) \<noteq> Fin 0" by code_simp
  then show ?thesis
    by (simp add: calculateSizeInMarketToken_def Let_def MIN_COLLATERAL_def js_le_def)
qed

text \<open>
  C4 (amended): for collateral 0.5, price 100000 and precision 4 \<open>calculateSizeInMarketToken\<close>
  returns 0, for every leverage table, because the collateral is below the minimum of 50;
  0.0001 is the value of the sizing formula \<open>floor(0.5 * 20 / 100000 * 10^4) / 10^4\<close> that
  the minimum keeps the function from reaching.
\<close>

theorem example_half_unit:
  "calculateSizeInMarketToken rt dl (JNum (Fin (1 / 2))) (JNum (Fin 100000)) (JNum (Fin 4)) = Fin 0
   \<and> js_div (js_floor (js_mul (js_div (js_mul (Fin (1 / 2)) (Fin 20)) (Fin 100000))
              (reference_pow (Fin 10) (Fin 4)))) (reference_pow (Fin 10) (Fin 4))
       = round_double (1 / 10000)"
proof
  show "calculateSizeInMarketToken rt dl (JNum (Fin (1 / 2))) (JNum (Fin 100000)) (JNum (Fin 4)) = Fin 0"
    by (simp add: calculateSizeInMarketToken_def Let_def MIN_COLLATERAL_def js_le_def)
  show "js_div (js_floor (js_mul (js_div (js_mul (Fin (1 / 2)) (Fin 20)) (Fin 100000))
              (reference_pow (Fin 10) (Fin 4)))) (reference_pow (Fin 10) (Fin 4))
       = round_double (1 / 10000)"
    by code_simp
qed

theorem example_half_unit_witness:
  "calculateSizeInMarketToken reference_runtime None (JNum (Fin (1 / 2))) (JNum (Fin 100000)) (JNum (Fin 4)) = Fin 0"
  using example_half_unit [of reference_runtime None] by simp

lemma not_integer: "of_int \<lfloor>x\<rfloor> \<noteq> x \<Longrightarrow> (x :: rat) \<notin> \<int>"
  by (auto elim!: Ints_cases)

text \<open>
  The claim that the returned quantity multiplied by \<open>10^precision\<close> is an integer
  fails: for collateral 50, price 14000 and precision 2 the function returns the double
  nearest to 0.07, and that double times 100 is 7.000000000000001 in double arithmetic and
  not an integer in exact arithmetic either.
\<close>

theorem rounded_quantity_counterexample:
  "calculateSizeInMarketToken reference_runtime None (JNum (Fin 50)) (JNum (Fin 14000)) (JNum (Fin 2))
     = Fin (1261007895663739 / 18014398509481984)
   \<and> js_mul (Fin (1261007895663739 / 18014398509481984)) (MathPow reference_runtime (Fin 10) (Fin 2))
     = Fin (7881299347898369 / 1125899906842624)
   \<and> (7881299347898369 / 1125899906842624 :: rat) \<notin> \<int>
   \<and> (1261007895663739 / 18014398509481984 * 10 ^ 2 :: rat) \<notin> \<int>"
proof (intro conjI)
  show "calculateSizeInMarketToken reference_runtime None (JNum (Fin 50)) (JNum (Fin 14000)) (JNum (Fin 2))
     = Fin (1261007895663739 / 18014398509481984)"
    by code_simp
  show "js_mul (Fin (1261007895663739 / 18014398509481984)) (MathPow reference_runtime (Fin 10) (Fin 2))
     = Fin (7881299347898369 / 1125899906842624)"
    by code_simp
  show "(7881299347898369 / 1125899906842624 :: rat) \<notin> \<int>"
    by (rule not_integer) code_simp
  show "(1261007895663739 / 18014398509481984 * 10 ^ 2 :: rat) \<notin> \<int>"
    by (rule not_integer) code_simp
qed

lemma calculateSize_accepts:
  assumes "js_ge (ToNumber rt collateral) (Fin 50)" and "js_gt (ToNumber rt price) (Fin 0)"
  shows "calculateSizeInMarketToken rt dl collateral price precision
         = js_div (js_floor (js_mul (js_div (js_mul (ToNumber rt collateral)
                                                     (ToNumber rt (DEFAULT_LEVERAGE dl)))
                                            (ToNumber rt price))
                                    (MathPow rt (Fin 10) (ToNumber rt precision))))
             (MathPow rt (Fin 10) (ToNumber rt precision))"
proof -
  have c: "truthy_num (ToNumber rt collateral)" "ToNumber rt collateral \<noteq> NaN"
    "\<not> js_le (ToNumber rt collateral) (Fin 0)" "\<not> js_lt (ToNumber rt collateral) MIN_COLLATERAL"
    using assms(1)
    by (cases "ToNumber rt collateral"; simp add: js_ge_def js_le_def MIN_COLLATERAL_def)+
  have p: "truthy_num (ToNumber rt price)" "ToNumber rt price \<noteq> NaN"
    "\<not> js_le (ToNumber rt price) (Fin 0)"
    using assms(2)
    by (cases "ToNumber rt price"; simp add: js_gt_def js_le_def)+
  show ?thesis
    using c p by (simp add: calculateSizeInMarketToken_def Let_def)
qed

text \<open>
  C3 (amended): for every collateral of at least 50 and every price above 0, when
  \<open>Math.pow(10, precision)\<close> is a finite double \<open>m\<close> other than 0 and the scaled quantity
  \<open>q = collateral * LEVERAGE / price * m\<close>, each operation rounded to the nearest double, is
  finite, \<open>calculateSizeInMarketToken\<close> returns the double nearest to \<open>floor(q) / m\<close>:
  the scaled quantity is truncated, not rounded, and the result is a double, which
  multiplied by \<open>10^precision\<close> need not be an integer. \<open>LEVERAGE\<close> is
  \<open>defaultLeverages.binance\<close> when that is set and truthy, and 20 otherwise.
\<close>

theorem rounded_quantity:
  assumes "js_ge (ToNumber rt collateral) (Fin 50)" and "js_gt (ToNumber rt price) (Fin 0)"
    and "MathPow rt (Fin 10) (ToNumber rt precision) = Fin m" and "m \<noteq> 0"
    and "js_mul (js_div (js_mul (ToNumber rt collateral) (ToNumber rt (DEFAULT_LEVERAGE dl)))
                        (ToNumber rt price)) (Fin m) = Fin q"
  shows "calculateSizeInMarketToken rt dl collateral price precision = round_double (of_int \<lfloor>q\<rfloor> / m)
         \<and> (dl = None \<or> (\<exists>t. dl = Some t \<and> t ''binance'' = None) \<longrightarrow>
               DEFAULT_LEVERAGE dl = JNum (Fin 20))
         \<and> (\<forall>t v. dl = Some t \<and> t ''binance'' = Some v \<longrightarrow>
               DEFAULT_LEVERAGE dl = (if truthy v then v else JNum (Fin 20)))"
proof (intro conjI)
  show "calculateSizeInMarketToken rt dl collateral price precision = round_double (of_int \<lfloor>q\<rfloor> / m)"
    using assms(3-5) by (simp add: calculateSize_accepts [OF assms(1,2)])
  show "dl = None \<or> (\<exists>t. dl = Some t \<and> t ''binance'' = None) \<longrightarrow> DEFAULT_LEVERAGE dl = JNum (Fin 20)"
    by (auto simp: DEFAULT_LEVERAGE_def js_or_def)
  show "\<forall>t v. dl = Some t \<and> t ''binance'' = Some v \<longrightarrow>
               DEFAULT_LEVERAGE dl = (if truthy v then v else JNum (Fin 20))"
    by (auto simp: DEFAULT_LEVERAGE_def js_or_def)
qed

theorem rounded_quantity_witness:
  "MathPow reference_runtime (Fin 10) (ToNumber reference_runtime (JNum (Fin 2))) = Fin 100
   \<and> js_mul (js_div (js_mul (Fin 50) (Fin 20)) (Fin 14000)) (Fin 100)
       = Fin (2010535547933257 / 281474976710656)
   \<and> \<lfloor>2010535547933257 / 281474976710656 :: rat\<rfloor> = 7
   \<and> calculateSizeInMarketToken reference_runtime None (JNum (Fin 50)) (JNum (Fin 14000)) (JNum (Fin 2))
       = round_double (7 / 100)
   \<and> DEFAULT_LEVERAGE None = JNum (Fin 20)"
proof -
  have c: "js_ge (ToNumber reference_runtime (JNum (Fin 50))) (Fin 50)"
    by (simp add: js_ge_def js_le_def)
  have p: "js_gt (ToNumber reference_runtime (JNum (Fin 14000))) (Fin 0)"
    by (simp add: js_gt_def)
  have m: "MathPow reference_runtime (Fin 10) (ToNumber reference_runtime (JNum (Fin 2))) = Fin 100"
    by code_simp
  have q0: "js_mul (js_div (js_mul (Fin 50) (Fin 20)) (Fin 14000)) (Fin 100)
           = Fin (2010535547933257 / 281474976710656)"
    by code_simp
  have l: "DEFAULT_LEVERAGE None = JNum (Fin 20)"
    by (simp add: DEFAULT_LEVERAGE_def js_or_def)
  have q: "js_mul (js_div (js_mul (ToNumber reference_runtime (JNum (Fin 50)))
                                  (ToNumber reference_runtime (DEFAULT_LEVERAGE None)))
                          (ToNumber reference_runtime (JNum (Fin 14000)))) (Fin 100)
           = Fin (2010535547933257 / 281474976710656)"
    unfolding l ToNumber.simps by (rule q0)
  have nz: "(100 :: rat) \<noteq> 0"
    by simp
  have f: "\<lfloor>2010535547933257 / 281474976710656 :: rat\<rfloor> = 7"
    by code_simp
  have "calculateSizeInMarketToken reference_runtime None (JNum (Fin 50)) (JNum (Fin 14000)) (JNum (Fin 2))
        = round_double (of_int \<lfloor>2010535547933257 / 281474976710656 :: rat\<rfloor> / 100)"
    using rounded_quantity [OF c p m nz q] by (rule conjunct1)
  then have r: "calculateSizeInMarketToken reference_runtime None (JNum (Fin 50)) (JNum (Fin 14000))
                  (JNum (Fin 2)) = round_double (7 / 100)"
    unfolding f by simp
  from m q0 f r l show ?thesis by (intro conjI)
qed

section \<open>Properties of the connector\<close>

subsection \<open>The examples evaluated\<close>

lemma example_convert: "convertMarketToBinanceMarket example_markets ''BTC'' = Some ''BTCUSDT''"
  by (simp add: convertMarketToBinanceMarket_def example_markets_def)

lemma example_find:
  "find (\<lambda>s. s_symbol s = ''BTCUSDT'') [example_symbol] = Some example_symbol"
  by (simp add: example_symbol_def)

lemma example_minQty: "minQtyOf reference_runtime example_symbol = Fin 1"
  by (simp add: minQtyOf_def example_symbol_def)

lemma example_minNotional: "minNotionalOf reference_runtime example_symbol = Fin 5"
  by (simp add: minNotionalOf_def example_symbol_def js_or_def)

lemma example_quantity_small:
  "calculateSizeInMarketToken reference_runtime None
     (JNum (js_div (ToNumber reference_runtime (JNum (Fin 1000)))
                   (ToNumber reference_runtime (DEFAULT_LEVERAGE None))))
     (JNum (Fin 50000)) (JNum (Fin 3))
   = Fin (5764607523034235 / 288230376151711744)"
  by code_simp

lemma example_order:
  "fst (prepareDataToPlace reference_runtime None example_markets example_client True ''BTC''
          (JNum (Fin 1000000)) None initial_state)
   = Inr (Some \<lparr>od_side = ''BUY'', od_symbol = ''BTCUSDT'', od_quantity = Fin 20\<rparr>)"
  by code_simp

lemma example_blacklisted: "''BTC'' \<in> unsupportedMarkets after_failure"
  by code_simp

lemma try_rejected_metadata:
  "getExchangeInfo client = Inl e \<Longrightarrow>
   fst (prepareDataToPlace_try rt dl client isLong market size' isClosed symbol st) = Inl e"
  by (simp add: prepareDataToPlace_try_def bind_def await_request_def)

subsection \<open>Exceptions stay inside prepareDataToPlace\<close>

text \<open>
  C1: \<open>prepareDataToPlace\<close> never throws to its caller: its outcome is always a value,
  \<open>null\<close> or a descriptor. When the \<open>try\<close> block (the metadata, price and configuration
  steps) throws, the result is \<open>null\<close> and the market is in \<open>unsupportedMarkets\<close>
  afterwards.
\<close>

theorem prepareDataToPlace_never_raises:
  "(\<exists>r. fst (prepareDataToPlace rt dl mp client isLong market size' isClosedArg st) = Inr r)
   \<and> (market \<notin> unsupportedMarkets st
        \<and> convertMarketToBinanceMarket mp market = Some symbol
        \<and> fst (prepareDataToPlace_try rt dl client isLong market size'
                  (case isClosedArg of None \<Rightarrow> False | Some b \<Rightarrow> b) symbol st) = Inl e
      \<longrightarrow> fst (prepareDataToPlace rt dl mp client isLong market size' isClosedArg st) = Inr None
          \<and> market \<in> unsupportedMarkets
                (snd (prepareDataToPlace rt dl mp client isLong market size' isClosedArg st)))"
  by (auto simp: prepareDataToPlace_def Let_def markUnsupported_def split: option.splits prod.splits sum.splits)

theorem prepareDataToPlace_never_raises_witness:
  "fst (prepareDataToPlace reference_runtime None example_markets failing_client True ''BTC''
          (JNum (Fin 1000)) None initial_state) = Inr None
   \<and> ''BTC'' \<in> unsupportedMarkets
        (snd (prepareDataToPlace reference_runtime None example_markets failing_client True ''BTC''
                (JNum (Fin 1000)) None initial_state))"
proof -
  have 1: "''BTC'' \<notin> unsupportedMarkets initial_state"
    by (simp add: initial_state_def)
  have 2: "convertMarketToBinanceMarket example_markets ''BTC'' = Some ''BTCUSDT''"
    by (simp add: convertMarketToBinanceMarket_def example_markets_def)
  have 3: "fst (prepareDataToPlace_try reference_runtime None failing_client True ''BTC'' (JNum (Fin 1000))
                  (case None of None \<Rightarrow> False | Some b \<Rightarrow> b) ''BTCUSDT'' initial_state)
           = Inl (ApiError ''timeout'')"
    by (rule try_rejected_metadata) (simp add: failing_client_def)
  show ?thesis
    using prepareDataToPlace_never_raises
      [of reference_runtime None example_markets failing_client True "''BTC''" "JNum (Fin 1000)" None
          initial_state "''BTCUSDT''" "ApiError ''timeout''"] 1 2 3
    by blast
qed

subsection \<open>Accepted orders\<close>

lemma configureSymbol_result:
  "fst (configureSymbol dl client symbol result st) = Inr (Some d) \<Longrightarrow> d = result"
  by (auto simp: configureSymbol_def bind_def await_request_def resolve_def throw_def update_def Let_def
           split: sum.splits list.splits if_splits prod.splits)

lemma sizeOrder_accepts:
  assumes "fst (sizeOrder rt dl client isLong size' isClosed symbol marketInfo binancePrice st) = Inr (Some d)"
  defines "quantity \<equiv> calculateSizeInMarketToken rt dl
              (JNum (js_div (ToNumber rt size') (ToNumber rt (DEFAULT_LEVERAGE dl))))
              binancePrice (s_quantityPrecision marketInfo)"
  shows "od_quantity d = quantity \<and> od_symbol d = symbol \<and> od_side d = getBinanceSide isLong isClosed
         \<and> js_gt (od_quantity d) (Fin 0)
         \<and> \<not> (js_gt (minQtyOf rt marketInfo) (Fin 0) \<and> js_lt (od_quantity d) (minQtyOf rt marketInfo))
         \<and> \<not> (js_gt (minNotionalOf rt marketInfo) (Fin 0)
               \<and> js_lt (js_mul (od_quantity d) (ToNumber rt binancePrice)) (minNotionalOf rt marketInfo))"
proof -
  have pos: "js_gt quantity (Fin 0)"
    using assms(1) unfolding quantity_def accepted_quantity [symmetric]
    by (auto simp: sizeOrder_def Let_def resolve_def split: if_splits)
  have a: "\<not> (js_gt (minQtyOf rt marketInfo) (Fin 0) \<and> js_lt quantity (minQtyOf rt marketInfo))"
    using assms(1) unfolding quantity_def
    by (auto simp: sizeOrder_def Let_def resolve_def bind_def update_def split: if_splits)
  have b: "\<not> (js_gt (minNotionalOf rt marketInfo) (Fin 0)
               \<and> js_lt (js_mul quantity (ToNumber rt binancePrice)) (minNotionalOf rt marketInfo))"
    using assms(1) unfolding quantity_def
    by (auto simp: sizeOrder_def Let_def resolve_def bind_def update_def split: if_splits)
  have "fst (configureSymbol dl client symbol
               \<lparr>od_side = getBinanceSide isLong isClosed, od_symbol = symbol, od_quantity = quantity\<rparr> st)
        = Inr (Some d)"
    using assms(1) unfolding quantity_def
    by (auto simp: sizeOrder_def Let_def resolve_def bind_def update_def split: if_splits)
  from configureSymbol_result [OF this] pos a b show ?thesis by simp
qed

lemma try_accepts:
  assumes "fst (prepareDataToPlace_try rt dl client isLong market size' isClosed symbol st) = Inr (Some d)"
  shows "\<exists>info symbols marketInfo response.
           getExchangeInfo client = Inr info \<and> e_symbols info = Some symbols
           \<and> find (\<lambda>s. s_symbol s = symbol) symbols = Some marketInfo
           \<and> getMarkPrice client symbol = Inr response
           \<and> fst (sizeOrder rt dl client isLong size' isClosed symbol marketInfo (p_markPrice response)
                    (request (GetMarkPrice symbol) (request GetExchangeInfo st))) = Inr (Some d)"
  using assms
  by (auto simp: prepareDataToPlace_try_def bind_def await_request_def resolve_def throw_def update_def
           split: sum.splits option.splits)

lemma prepare_accepts:
  assumes "fst (prepareDataToPlace rt dl mp client isLong market size' isClosedArg st) = Inr (Some d)"
  shows "\<exists>symbol. convertMarketToBinanceMarket mp market = Some symbol
           \<and> fst (prepareDataToPlace_try rt dl client isLong market size'
                     (case isClosedArg of None \<Rightarrow> False | Some b \<Rightarrow> b) symbol st) = Inr (Some d)"
  using assms
  by (auto simp: prepareDataToPlace_def Let_def split: if_splits option.splits sum.splits prod.splits)

text \<open>
  C2: whenever \<open>prepareDataToPlace\<close> returns a descriptor, the exchange has answered with
  the metadata of the symbol and with a mark price, and the quantity of the descriptor is
  greater than 0, at least the minimum quantity and, multiplied by the mark price, at least
  the minimum notional, for every minimum of the symbol's filters that is a number (0 when
  the filter is absent). Whatever the filters hold, the quantity is not below the minimum
  quantity and the notional is not below the minimum notional.
\<close>

theorem accepted_order_meets_minimums:
  assumes "fst (prepareDataToPlace rt dl mp client isLong market size' isClosedArg st) = Inr (Some d)"
  shows "\<exists>symbol info symbols marketInfo response.
           convertMarketToBinanceMarket mp market = Some symbol
           \<and> getExchangeInfo client = Inr info \<and> e_symbols info = Some symbols
           \<and> find (\<lambda>s. s_symbol s = symbol) symbols = Some marketInfo
           \<and> getMarkPrice client symbol = Inr response
           \<and> js_gt (od_quantity d) (Fin 0)
           \<and> (minQtyOf rt marketInfo \<noteq> NaN \<longrightarrow> js_ge (od_quantity d) (minQtyOf rt marketInfo))
           \<and> (minNotionalOf rt marketInfo \<noteq> NaN \<longrightarrow>
                js_ge (js_mul (od_quantity d) (ToNumber rt (p_markPrice response)))
                  (minNotionalOf rt marketInfo))
           \<and> \<not> js_lt (od_quantity d) (minQtyOf rt marketInfo)
           \<and> \<not> js_lt (js_mul (od_quantity d) (ToNumber rt (p_markPrice response)))
                   (minNotionalOf rt marketInfo)"
proof -
  from prepare_accepts [OF assms] obtain symbol where
    symbol: "convertMarketToBinanceMarket mp market = Some symbol"
    and "fst (prepareDataToPlace_try rt dl client isLong market size'
                 (case isClosedArg of None \<Rightarrow> False | Some b \<Rightarrow> b) symbol st) = Inr (Some d)"
    by blast
  from try_accepts [OF this(2)] obtain info symbols marketInfo response where
    fetched: "getExchangeInfo client = Inr info" "e_symbols info = Some symbols"
      "find (\<lambda>s. s_symbol s = symbol) symbols = Some marketInfo"
      "getMarkPrice client symbol = Inr response"
    and sized: "fst (sizeOrder rt dl client isLong size'
                      (case isClosedArg of None \<Rightarrow> False | Some b \<Rightarrow> b) symbol marketInfo
                      (p_markPrice response)
                      (request (GetMarkPrice symbol) (request GetExchangeInfo st))) = Inr (Some d)"
    by blast
  let ?q = "od_quantity d"
  let ?price = "ToNumber rt (p_markPrice response)"
  note accepted = sizeOrder_accepts [OF sized]
  note q = accepted [THEN conjunct1]
  note pos = accepted [THEN conjunct2, THEN conjunct2, THEN conjunct2, THEN conjunct1]
  note minQty = accepted [THEN conjunct2, THEN conjunct2, THEN conjunct2, THEN conjunct2, THEN conjunct1]
  note minNotional = accepted [THEN conjunct2, THEN conjunct2, THEN conjunct2, THEN conjunct2, THEN conjunct2]
  have q0: "js_ge ?q (Fin 0)" using pos by (rule js_gt_imp_ge)
  have price: "js_gt ?price (Fin 0)"
    using pos unfolding q by (rule calculateSize_positive_price)
  have n0: "js_ge (js_mul ?q ?price) (Fin 0)"
    using pos price by (rule js_mul_positive)
  have 1: "js_ge ?q (minQtyOf rt marketInfo)" if "minQtyOf rt marketInfo \<noteq> NaN"
  proof (cases "js_gt (minQtyOf rt marketInfo) (Fin 0)")
    case True
    with minQty have "\<not> js_lt ?q (minQtyOf rt marketInfo)" by simp
    moreover have "?q \<noteq> NaN" using pos by (auto simp: js_gt_def)
    ultimately show ?thesis using that by (simp add: js_ge_def js_le_def)
  next
    case False
    with q0 that show ?thesis by (simp add: js_ge_trans0)
  qed
  have 2: "js_ge (js_mul ?q ?price) (minNotionalOf rt marketInfo)" if "minNotionalOf rt marketInfo \<noteq> NaN"
  proof (cases "js_gt (minNotionalOf rt marketInfo) (Fin 0)")
    case True
    with minNotional have "\<not> js_lt (js_mul ?q ?price) (minNotionalOf rt marketInfo)" by simp
    moreover have "js_mul ?q ?price \<noteq> NaN" using n0 by (auto simp: js_ge_def js_le_def)
    ultimately show ?thesis using that by (simp add: js_ge_def js_le_def)
  next
    case False
    with n0 that show ?thesis by (simp add: js_ge_trans0)
  qed
  have 3: "\<not> js_lt ?q (minQtyOf rt marketInfo)"
    using 1 by (cases "minQtyOf rt marketInfo = NaN") (auto simp: js_ge_def js_le_def js_lt_NaN)
  have 4: "\<not> js_lt (js_mul ?q ?price) (minNotionalOf rt marketInfo)"
    using 2 by (cases "minNotionalOf rt marketInfo = NaN") (auto simp: js_ge_def js_le_def js_lt_NaN)
  have "convertMarketToBinanceMarket mp market = Some symbol
        \<and> getExchangeInfo client = Inr info \<and> e_symbols info = Some symbols
        \<and> find (\<lambda>s. s_symbol s = symbol) symbols = Some marketInfo
        \<and> getMarkPrice client symbol = Inr response
        \<and> js_gt ?q (Fin 0)
        \<and> (minQtyOf rt marketInfo \<noteq> NaN \<longrightarrow> js_ge ?q (minQtyOf rt marketInfo))
        \<and> (minNotionalOf rt marketInfo \<noteq> NaN \<longrightarrow>
             js_ge (js_mul ?q ?price) (minNotionalOf rt marketInfo))
        \<and> \<not> js_lt ?q (minQtyOf rt marketInfo)
        \<and> \<not> js_lt (js_mul ?q ?price) (minNotionalOf rt marketInfo)"
    by (intro conjI impI symbol fetched pos 1 2 3 4)
  then show ?thesis
    by (intro exI)

qed

theorem accepted_order_meets_minimums_witness:
  "fst (prepareDataToPlace reference_runtime None example_markets example_client True ''BTC''
          (JNum (Fin 1000000)) None initial_state)
     = Inr (Some \<lparr>od_side = ''BUY'', od_symbol = ''BTCUSDT'', od_quantity = Fin 20\<rparr>)
   \<and> js_gt (Fin 20) (Fin 0)
   \<and> minQtyOf reference_runtime example_symbol = Fin 1
   \<and> js_ge (Fin 20) (minQtyOf reference_runtime example_symbol)
   \<and> minNotionalOf reference_runtime example_symbol = Fin 5
   \<and> js_ge (js_mul (Fin 20) (Fin 50000)) (minNotionalOf reference_runtime example_symbol)"
proof -
  let ?d = "\<lparr>od_side = ''BUY'', od_symbol = ''BTCUSDT'', od_quantity = Fin 20\<rparr>"
  from accepted_order_meets_minimums [OF example_order]
  obtain symbol info symbols marketInfo response where
    symbol: "convertMarketToBinanceMarket example_markets ''BTC'' = Some symbol"
    and info: "getExchangeInfo example_client = Inr info"
    and symbols: "e_symbols info = Some symbols"
    and marketInfo: "find (\<lambda>s. s_symbol s = symbol) symbols = Some marketInfo"
    and response: "getMarkPrice example_client symbol = Inr response"
    and pos: "js_gt (od_quantity ?d) (Fin 0)"
    and minQty: "minQtyOf reference_runtime marketInfo \<noteq> NaN \<longrightarrow>
                   js_ge (od_quantity ?d) (minQtyOf reference_runtime marketInfo)"
    and minNotional: "minNotionalOf reference_runtime marketInfo \<noteq> NaN \<longrightarrow>
                   js_ge (js_mul (od_quantity ?d) (ToNumber reference_runtime (p_markPrice response)))
                     (minNotionalOf reference_runtime marketInfo)"
    and "\<not> js_lt (od_quantity ?d) (minQtyOf reference_runtime marketInfo)"
    and "\<not> js_lt (js_mul (od_quantity ?d) (ToNumber reference_runtime (p_markPrice response)))
             (minNotionalOf reference_runtime marketInfo)"
    by (elim exE conjE)
  have 1: "symbol = ''BTCUSDT''"
    using symbol by (simp add: example_convert)
  have 2: "symbols = [example_symbol]"
    using info symbols by (auto simp: example_client_def)
  have 3: "marketInfo = example_symbol"
    using marketInfo example_find unfolding 1 2 by (simp only: option.inject)
  have 4: "p_markPrice response = JNum (Fin 50000)"
    using response by (auto simp: example_client_def)
  have a: "js_ge (Fin 20) (minQtyOf reference_runtime example_symbol)"
    using minQty unfolding 3 by (simp add: example_minQty)
  have b: "js_ge (js_mul (Fin 20) (Fin 50000)) (minNotionalOf reference_runtime example_symbol)"
    using minNotional unfolding 3 4 by (simp add: example_minNotional)
  have c: "js_gt (Fin 20) (Fin 0)"
    using pos by simp
  from example_order a b c example_minQty example_minNotional show ?thesis
    by (intro conjI)
qed

subsection \<open>Actions keep the unsupported markets\<close>

lemma keeps_resolve: "keeps_unsupported (resolve x)"
  by (simp add: keeps_unsupported_def resolve_def)

lemma keeps_throw: "keeps_unsupported (throw e)"
  by (simp add: keeps_unsupported_def throw_def)

lemma keeps_await: "keeps_unsupported (await_request c a)"
  by (simp add: keeps_unsupported_def await_request_def request_def)

lemma keeps_update:
  "(\<And>st. unsupportedMarkets st \<subseteq> unsupportedMarkets (f st)) \<Longrightarrow> keeps_unsupported (update f)"
  by (simp add: keeps_unsupported_def update_def)

lemma keeps_bind:
  assumes "keeps_unsupported m" and "\<And>x. keeps_unsupported (f x)"
  shows "keeps_unsupported (bind m f)"
  unfolding keeps_unsupported_def
proof
  fix st
  show "unsupportedMarkets st \<subseteq> unsupportedMarkets (snd (bind m f st))"
  proof (cases "m st")
    case (Pair r st')
    have "unsupportedMarkets st \<subseteq> unsupportedMarkets (snd (m st))"
      using assms(1) by (simp add: keeps_unsupported_def)
    then have 1: "unsupportedMarkets st \<subseteq> unsupportedMarkets st'"
      using Pair by simp
    show ?thesis
    proof (cases r)
      case (Inl e)
      with Pair 1 show ?thesis by (simp add: bind_def)
    next
      case (Inr x)
      have "unsupportedMarkets st' \<subseteq> unsupportedMarkets (snd (f x st'))"
        using assms(2) [of x] by (simp add: keeps_unsupported_def)
      with Pair Inr 1 show ?thesis by (auto simp: bind_def)
    qed
  qed
qed

lemma saveConfig_unsupported: "unsupportedMarkets (saveConfig symbol v st) = unsupportedMarkets st"
  by (simp add: saveConfig_def split: option.splits)

lemma print_unsupported: "unsupportedMarkets (print l st) = unsupportedMarkets st"
  by (simp add: print_def)

lemma markUnsupported_unsupported:
  "unsupportedMarkets (markUnsupported market st) = insert market (unsupportedMarkets st)"
  by (auto simp: markUnsupported_def)

lemma keeps_configureSymbol: "keeps_unsupported (configureSymbol dl client symbol result)"
  unfolding configureSymbol_def Let_def
  by (intro keeps_bind keeps_await keeps_resolve keeps_update)
     (auto simp: saveConfig_unsupported keeps_throw keeps_resolve
           intro!: keeps_bind keeps_await keeps_resolve keeps_update split: list.splits)

lemma keeps_sizeOrder:
  "keeps_unsupported (sizeOrder rt dl client isLong size' isClosed symbol marketInfo binancePrice)"
  unfolding sizeOrder_def Let_def
  by (auto simp: print_unsupported keeps_configureSymbol
        intro!: keeps_bind keeps_resolve keeps_update)

lemma keeps_try:
  "keeps_unsupported (prepareDataToPlace_try rt dl client isLong market size' isClosed symbol)"
  unfolding prepareDataToPlace_try_def
  by (intro keeps_bind keeps_await)
     (auto simp: markUnsupported_unsupported keeps_throw keeps_sizeOrder
        intro!: keeps_bind keeps_resolve keeps_update keeps_await split: option.splits)

lemma keeps_prepareDataToPlace:
  "keeps_unsupported (prepareDataToPlace rt dl mp client isLong market size' isClosedArg)"
  unfolding keeps_unsupported_def
proof
  fix st
  let ?isClosed = "case isClosedArg of None \<Rightarrow> False | Some b \<Rightarrow> b"
  show "unsupportedMarkets st
        \<subseteq> unsupportedMarkets (snd (prepareDataToPlace rt dl mp client isLong market size' isClosedArg st))"
  proof (cases "convertMarketToBinanceMarket mp market")
    case None
    then show ?thesis
      by (auto simp: prepareDataToPlace_def markUnsupported_unsupported)
  next
    case (Some symbol)
    have "unsupportedMarkets st
          \<subseteq> unsupportedMarkets (snd (prepareDataToPlace_try rt dl client isLong market size' ?isClosed symbol st))"
      using keeps_try [of rt dl client isLong market size' ?isClosed symbol]
      by (simp add: keeps_unsupported_def)
    with Some show ?thesis
      by (cases "prepareDataToPlace_try rt dl client isLong market size' ?isClosed symbol st")
         (auto simp: prepareDataToPlace_def Let_def markUnsupported_unsupported print_unsupported
               split: sum.splits)
  qed
qed

lemma keeps_placeNewOrder:
  "keeps_unsupported (placeNewOrder rt client now side symbol quantity)"
  by (auto simp: keeps_unsupported_def placeNewOrder_def Let_def print_def request_def split: sum.splits)

lemma step_keeps:
  "ev \<noteq> Reset \<Longrightarrow> unsupportedMarkets st \<subseteq> unsupportedMarkets (step rt dl mp st ev)"
  using keeps_prepareDataToPlace keeps_placeNewOrder
  by (cases ev) (auto simp: keeps_unsupported_def)

lemma run_keeps:
  "Reset \<notin> set evs \<Longrightarrow> unsupportedMarkets st \<subseteq> unsupportedMarkets (run rt dl mp st evs)"
  unfolding run_def
proof (induction evs arbitrary: st)
  case Nil
  then show ?case by simp
next
  case (Cons ev evs)
  have "unsupportedMarkets st \<subseteq> unsupportedMarkets (step rt dl mp st ev)"
    using Cons.prems by (intro step_keeps) auto
  moreover have "unsupportedMarkets (step rt dl mp st ev)
                 \<subseteq> unsupportedMarkets (foldl (step rt dl mp) (step rt dl mp st ev) evs)"
    using Cons.prems by (intro Cons.IH) auto
  ultimately show ?case by auto
qed

text \<open>
  C6: once a market is in \<open>unsupportedMarkets\<close>, every later call of
  \<open>prepareDataToPlace\<close> for it, after any sequence of calls of the module without the
  24 hour reset, returns \<open>null\<close> and leaves the state as it is: no request is sent to the
  exchange.
\<close>

theorem unsupported_market_short_circuit:
  assumes "market \<in> unsupportedMarkets st" and "Reset \<notin> set evs"
  shows "prepareDataToPlace rt dl mp client isLong market size' isClosedArg (run rt dl mp st evs)
         = (Inr None, run rt dl mp st evs)"
proof -
  have "market \<in> unsupportedMarkets (run rt dl mp st evs)"
    using run_keeps [OF assms(2)] assms(1) by blast
  then show ?thesis
    by (simp add: prepareDataToPlace_def)
qed

theorem unsupported_market_short_circuit_witness:
  "prepareDataToPlace reference_runtime None example_markets example_client True ''BTC''
     (JNum (Fin 1000000)) None
     (run reference_runtime None example_markets after_failure
        [PlaceOrder example_client 0 ''BUY'' ''BTCUSDT'' JUndefined,
         Prepare example_client False ''ETH'' (JNum (Fin 1000)) None])
   = (Inr None,
      run reference_runtime None example_markets after_failure
        [PlaceOrder example_client 0 ''BUY'' ''BTCUSDT'' JUndefined,
         Prepare example_client False ''ETH'' (JNum (Fin 1000)) None])"
proof (rule unsupported_market_short_circuit)
  show "''BTC'' \<in> unsupportedMarkets after_failure"
    by (rule example_blacklisted)
  show "Reset \<notin> set [PlaceOrder example_client 0 ''BUY'' ''BTCUSDT'' JUndefined,
                       Prepare example_client False ''ETH'' (JNum (Fin 1000)) None]"
    by simp
qed

subsection \<open>Sizing rejections\<close>

lemma sizeOrder_rejects:
  fixes st :: connector_state
  defines "quantity \<equiv> \<lambda>rt dl size' binancePrice marketInfo. calculateSizeInMarketToken rt dl
              (JNum (js_div (ToNumber rt size') (ToNumber rt (DEFAULT_LEVERAGE dl))))
              binancePrice (s_quantityPrecision marketInfo)"
  assumes "\<not> truthy_num (quantity rt dl size' binancePrice marketInfo)
           \<or> js_le (quantity rt dl size' binancePrice marketInfo) (Fin 0)
           \<or> js_lt (quantity rt dl size' binancePrice marketInfo) (minQtyOf rt marketInfo)
           \<or> js_lt (js_mul (quantity rt dl size' binancePrice marketInfo) (ToNumber rt binancePrice))
                (minNotionalOf rt marketInfo)"
  shows "fst (sizeOrder rt dl client isLong size' isClosed symbol marketInfo binancePrice st) = Inr None
         \<and> unsupportedMarkets (snd (sizeOrder rt dl client isLong size' isClosed symbol marketInfo binancePrice st))
             = unsupportedMarkets st
         \<and> savedConfigSymbols (snd (sizeOrder rt dl client isLong size' isClosed symbol marketInfo binancePrice st))
             = savedConfigSymbols st
         \<and> calls (snd (sizeOrder rt dl client isLong size' isClosed symbol marketInfo binancePrice st))
             = calls st"
proof (cases "js_gt (quantity rt dl size' binancePrice marketInfo) (Fin 0)")
  case False
  then have "\<not> truthy_num (quantity rt dl size' binancePrice marketInfo)
             \<or> js_le (quantity rt dl size' binancePrice marketInfo) (Fin 0)"
    using accepted_quantity by blast
  then show ?thesis
    unfolding quantity_def by (auto simp: sizeOrder_def Let_def resolve_def)
next
  case True
  let ?q = "quantity rt dl size' binancePrice marketInfo"
  have acc: "\<not> (\<not> truthy_num ?q \<or> js_le ?q (Fin 0))"
    using True accepted_quantity by blast
  have price: "js_gt (ToNumber rt binancePrice) (Fin 0)"
    using True unfolding quantity_def by (rule calculateSize_positive_price)
  have n0: "js_ge (js_mul ?q (ToNumber rt binancePrice)) (Fin 0)"
    using True price by (rule js_mul_positive)
  from assms(2) acc consider
    (qty) "js_lt ?q (minQtyOf rt marketInfo)"
    | (notional) "js_lt (js_mul ?q (ToNumber rt binancePrice)) (minNotionalOf rt marketInfo)"
    by blast
  then show ?thesis
  proof cases
    case qty
    then have "js_gt (minQtyOf rt marketInfo) (Fin 0)"
      using True js_gt_imp_ge js_lt_positive by blast
    with qty acc show ?thesis
      unfolding quantity_def
      by (auto simp: sizeOrder_def Let_def resolve_def bind_def update_def print_def)
  next
    case notional
    then have "js_gt (minNotionalOf rt marketInfo) (Fin 0)"
      using n0 js_lt_positive by blast
    with notional acc show ?thesis
      unfolding quantity_def
      by (auto simp: sizeOrder_def Let_def resolve_def bind_def update_def print_def)
  qed
qed

text \<open>
  C7: when the metadata and the mark price have been fetched and the computed quantity is
  not positive, or is below the minimum quantity, or its notional is below the minimum
  notional, \<open>prepareDataToPlace\<close> returns \<open>null\<close> and \<open>unsupportedMarkets\<close> is as
  before, as is \<open>savedConfigSymbols\<close>; the two fetches are the only requests sent.
\<close>

theorem sizing_rejection_keeps_unsupported:
  assumes "market \<notin> unsupportedMarkets st"
    and "convertMarketToBinanceMarket mp market = Some symbol"
    and "getExchangeInfo client = Inr info" and "e_symbols info = Some symbols"
    and "find (\<lambda>s. s_symbol s = symbol) symbols = Some marketInfo"
    and "getMarkPrice client symbol = Inr response"
    and "quantity = calculateSizeInMarketToken rt dl
           (JNum (js_div (ToNumber rt size') (ToNumber rt (DEFAULT_LEVERAGE dl))))
           (p_markPrice response) (s_quantityPrecision marketInfo)"
    and "\<not> truthy_num quantity \<or> js_le quantity (Fin 0)
         \<or> js_lt quantity (minQtyOf rt marketInfo)
         \<or> js_lt (js_mul quantity (ToNumber rt (p_markPrice response))) (minNotionalOf rt marketInfo)"
  shows "fst (prepareDataToPlace rt dl mp client isLong market size' isClosedArg st) = Inr None
         \<and> unsupportedMarkets (snd (prepareDataToPlace rt dl mp client isLong market size' isClosedArg st))
             = unsupportedMarkets st
         \<and> savedConfigSymbols (snd (prepareDataToPlace rt dl mp client isLong market size' isClosedArg st))
             = savedConfigSymbols st
         \<and> calls (snd (prepareDataToPlace rt dl mp client isLong market size' isClosedArg st))
             = calls st @ [GetExchangeInfo, GetMarkPrice symbol]"
proof -
  let ?isClosed = "case isClosedArg of None \<Rightarrow> False | Some b \<Rightarrow> b"
  let ?st2 = "request (GetMarkPrice symbol) (request GetExchangeInfo st)"
  let ?sized = "sizeOrder rt dl client isLong size' ?isClosed symbol marketInfo (p_markPrice response) ?st2"
  have body: "prepareDataToPlace_try rt dl client isLong market size' ?isClosed symbol st = ?sized"
    using assms(3-6) by (simp add: prepareDataToPlace_try_def bind_def await_request_def)
  have sized: "fst ?sized = Inr None \<and> unsupportedMarkets (snd ?sized) = unsupportedMarkets ?st2
               \<and> savedConfigSymbols (snd ?sized) = savedConfigSymbols ?st2
               \<and> calls (snd ?sized) = calls ?st2"
    using assms(8) unfolding assms(7) by (rule sizeOrder_rejects)
  have "prepareDataToPlace rt dl mp client isLong market size' isClosedArg st = (Inr None, snd ?sized)"
    using assms(1,2) sized by (cases ?sized) (simp add: prepareDataToPlace_def body)
  with sized show ?thesis by (simp add: request_def)
qed

theorem sizing_rejection_keeps_unsupported_witness:
  "fst (prepareDataToPlace reference_runtime None example_markets example_client True ''BTC''
          (JNum (Fin 1000)) None initial_state) = Inr None
   \<and> unsupportedMarkets
        (snd (prepareDataToPlace reference_runtime None example_markets example_client True ''BTC''
                (JNum (Fin 1000)) None initial_state)) = {}
   \<and> calls (snd (prepareDataToPlace reference_runtime None example_markets example_client True ''BTC''
                (JNum (Fin 1000)) None initial_state))
       = [GetExchangeInfo, GetMarkPrice ''BTCUSDT'']"
proof -
  have small: "js_lt (Fin (5764607523034235 / 288230376151711744)) (minQtyOf reference_runtime example_symbol)"
    by (simp add: example_minQty)
  have "fst (prepareDataToPlace reference_runtime None example_markets example_client True ''BTC''
               (JNum (Fin 1000)) None initial_state) = Inr None
        \<and> unsupportedMarkets
             (snd (prepareDataToPlace reference_runtime None example_markets example_client True ''BTC''
                     (JNum (Fin 1000)) None initial_state)) = unsupportedMarkets initial_state
        \<and> savedConfigSymbols
             (snd (prepareDataToPlace reference_runtime None example_markets example_client True ''BTC''
                     (JNum (Fin 1000)) None initial_state)) = savedConfigSymbols initial_state
        \<and> calls (snd (prepareDataToPlace reference_runtime None example_markets example_client True ''BTC''
                     (JNum (Fin 1000)) None initial_state))
            = calls initial_state @ [GetExchangeInfo, GetMarkPrice ''BTCUSDT'']"
  proof (rule sizing_rejection_keeps_unsupported)
    show "''BTC'' \<notin> unsupportedMarkets initial_state"
      by (simp add: initial_state_def)
    show "convertMarketToBinanceMarket example_markets ''BTC'' = Some ''BTCUSDT''"
      by (rule example_convert)
    show "getExchangeInfo example_client = Inr \<lparr>e_symbols = Some [example_symbol]\<rparr>"
      by (simp add: example_client_def)
    show "e_symbols \<lparr>e_symbols = Some [example_symbol]\<rparr> = Some [example_symbol]"
      by simp
    show "find (\<lambda>s. s_symbol s = ''BTCUSDT'') [example_symbol] = Some example_symbol"
      by (rule example_find)
    show "getMarkPrice example_client ''BTCUSDT'' = Inr \<lparr>p_markPrice = JNum (Fin 50000)\<rparr>"
      by (simp add: example_client_def)
    show "Fin (5764607523034235 / 288230376151711744)
          = calculateSizeInMarketToken reference_runtime None
              (JNum (js_div (ToNumber reference_runtime (JNum (Fin 1000)))
                            (ToNumber reference_runtime (DEFAULT_LEVERAGE None))))
              (p_markPrice \<lparr>p_markPrice = JNum (Fin 50000)\<rparr>) (s_quantityPrecision example_symbol)"
      using example_quantity_small by (simp add: example_symbol_def)
    show "\<not> truthy_num (Fin (5764607523034235 / 288230376151711744))
          \<or> js_le (Fin (5764607523034235 / 288230376151711744)) (Fin 0)
          \<or> js_lt (Fin (5764607523034235 / 288230376151711744)) (minQtyOf reference_runtime example_symbol)
          \<or> js_lt (js_mul (Fin (5764607523034235 / 288230376151711744))
                      (ToNumber reference_runtime (p_markPrice \<lparr>p_markPrice = JNum (Fin 50000)\<rparr>)))
                (minNotionalOf reference_runtime example_symbol)"
      using small by blast
  qed
  then show ?thesis
    by (simp add: initial_state_def)
qed

subsection \<open>Orders with an invalid quantity\<close>

text \<open>
  C10: when \<open>quantity\<close> is missing, zero or negative, \<open>placeNewOrder\<close> prints an error
  and returns \<open>undefined\<close>: no request is sent to the exchange and nothing is thrown.
\<close>

theorem placeNewOrder_invalid_quantity:
  assumes "quantity = JUndefined \<or> js_le (ToNumber rt quantity) (Fin 0)"
  shows "placeNewOrder rt client now side symbol quantity st
         = (Inr None, st\<lparr>console := console st @ [ConsoleError ''Invalid quantity:'']\<rparr>)"
  using assms by (auto simp: placeNewOrder_def print_def)

theorem placeNewOrder_invalid_quantity_witness:
  "placeNewOrder reference_runtime example_client 0 ''BUY'' ''BTCUSDT'' JUndefined initial_state
     = (Inr None, initial_state\<lparr>console := [ConsoleError ''Invalid quantity:'']\<rparr>)
   \<and> placeNewOrder reference_runtime example_client 0 ''BUY'' ''BTCUSDT'' (JNum (Fin 0)) initial_state
     = (Inr None, initial_state\<lparr>console := [ConsoleError ''Invalid quantity:'']\<rparr>)
   \<and> placeNewOrder reference_runtime example_client 0 ''BUY'' ''BTCUSDT'' (JNum (Fin (- 2))) initial_state
     = (Inr None, initial_state\<lparr>console := [ConsoleError ''Invalid quantity:'']\<rparr>)"
  using placeNewOrder_invalid_quantity [of JUndefined reference_runtime example_client 0 "''BUY''" "''BTCUSDT''" initial_state]
    placeNewOrder_invalid_quantity [of "JNum (Fin 0)" reference_runtime example_client 0 "''BUY''" "''BTCUSDT''" initial_state]
    placeNewOrder_invalid_quantity [of "JNum (Fin (- 2))" reference_runtime example_client 0 "''BUY''" "''BTCUSDT''" initial_state]
  by (simp add: js_le_def initial_state_def)

subsection \<open>Reconnection\<close>

lemma reconnect_times_counter:
  "reconnectAttempts this = 0 \<Longrightarrow>
   reconnectAttempts (fst (reconnect_times n this loop)) = min n 5
   \<and> map snd (timeouts (snd (reconnect_times n this loop)))
       = map snd (timeouts loop) @ map (\<lambda>i. 1000 * i) [1..<Suc (min n 5)]"
proof (induction n)
  case 0
  then show ?case by simp
next
  case (Suc n)
  then show ?case
    by (cases "reconnect_times n this loop")
       (auto simp: reconnect_def WS_MAX_RECONNECT_ATTEMPTS_def WS_RECONNECT_DELAY_def Let_def min_def)
qed

text \<open>
  C8: \<open>reconnect\<close> changes nothing but the console when \<open>reconnectAttempts\<close> has reached
  the maximum of 5; below it, it increments the counter and schedules \<open>connect\<close> after
  1000 ms times the new counter. Starting from a counter of 0, \<open>n\<close> calls in a row schedule
  the delays 1000, 2000, 3000, ... and no more than five of them.
\<close>

theorem reconnect_linear_backoff:
  "(WS_MAX_RECONNECT_ATTEMPTS \<le> reconnectAttempts this \<longrightarrow>
      fst (reconnect this loop) = this \<and> timeouts (snd (reconnect this loop)) = timeouts loop)
   \<and> (reconnectAttempts this < WS_MAX_RECONNECT_ATTEMPTS \<longrightarrow>
      fst (reconnect this loop) = this\<lparr>reconnectAttempts := reconnectAttempts this + 1\<rparr>
      \<and> timeouts (snd (reconnect this loop))
          = timeouts loop @ [(CallConnect, 1000 * (reconnectAttempts this + 1))])
   \<and> WS_MAX_RECONNECT_ATTEMPTS = 5
   \<and> (reconnectAttempts this = 0 \<longrightarrow>
      map snd (timeouts (snd (reconnect_times n this loop)))
        = map snd (timeouts loop) @ map (\<lambda>i. 1000 * i) [1..<Suc (min n 5)])"
  using reconnect_times_counter [of this n loop]
  by (auto simp: reconnect_def WS_MAX_RECONNECT_ATTEMPTS_def WS_RECONNECT_DELAY_def Let_def)

theorem reconnect_linear_backoff_witness:
  "map snd (timeouts (snd (reconnect_times 7 newBinanceWebSocket empty_loop)))
     = [1000, 2000, 3000, 4000, 5000]
   \<and> timeouts (snd (reconnect (newBinanceWebSocket\<lparr>reconnectAttempts := 2\<rparr>) empty_loop))
     = [(CallConnect, 3000)]
   \<and> fst (reconnect (newBinanceWebSocket\<lparr>reconnectAttempts := 5\<rparr>) empty_loop)
     = newBinanceWebSocket\<lparr>reconnectAttempts := 5\<rparr>
   \<and> timeouts (snd (reconnect (newBinanceWebSocket\<lparr>reconnectAttempts := 5\<rparr>) empty_loop)) = []"
proof -
  have delays: "map snd (timeouts empty_loop) @ map (\<lambda>i. 1000 * i) [1..<Suc (min 7 5)]
                = [1000, 2000, 3000, 4000, 5000 :: nat]"
    by code_simp
  have fresh: "reconnectAttempts newBinanceWebSocket = 0"
    by (simp add: newBinanceWebSocket_def)
  have third: "reconnectAttempts (newBinanceWebSocket\<lparr>reconnectAttempts := 2\<rparr>) < WS_MAX_RECONNECT_ATTEMPTS"
    by (simp add: WS_MAX_RECONNECT_ATTEMPTS_def)
  have last: "WS_MAX_RECONNECT_ATTEMPTS \<le> reconnectAttempts (newBinanceWebSocket\<lparr>reconnectAttempts := 5\<rparr>)"
    by (simp add: WS_MAX_RECONNECT_ATTEMPTS_def)
  have a: "map snd (timeouts (snd (reconnect_times 7 newBinanceWebSocket empty_loop)))
           = [1000, 2000, 3000, 4000, 5000]"
    using reconnect_linear_backoff [of newBinanceWebSocket empty_loop 7] fresh delays by metis
  have "timeouts (snd (reconnect (newBinanceWebSocket\<lparr>reconnectAttempts := 2\<rparr>) empty_loop))
        = timeouts empty_loop
          @ [(CallConnect, 1000 * (reconnectAttempts (newBinanceWebSocket\<lparr>reconnectAttempts := 2\<rparr>) + 1))]"
    using reconnect_linear_backoff [of "newBinanceWebSocket\<lparr>reconnectAttempts := 2\<rparr>" empty_loop 0] third
    by blast
  then have b: "timeouts (snd (reconnect (newBinanceWebSocket\<lparr>reconnectAttempts := 2\<rparr>) empty_loop))
                = [(CallConnect, 3000)]"
    by (simp add: empty_loop_def)
  have "fst (reconnect (newBinanceWebSocket\<lparr>reconnectAttempts := 5\<rparr>) empty_loop)
          = newBinanceWebSocket\<lparr>reconnectAttempts := 5\<rparr>
        \<and> timeouts (snd (reconnect (newBinanceWebSocket\<lparr>reconnectAttempts := 5\<rparr>) empty_loop))
          = timeouts empty_loop"
    using reconnect_linear_backoff [of "newBinanceWebSocket\<lparr>reconnectAttempts := 5\<rparr>" empty_loop 0] last
    by blast
  then have c: "fst (reconnect (newBinanceWebSocket\<lparr>reconnectAttempts := 5\<rparr>) empty_loop)
                  = newBinanceWebSocket\<lparr>reconnectAttempts := 5\<rparr>
                \<and> timeouts (snd (reconnect (newBinanceWebSocket\<lparr>reconnectAttempts := 5\<rparr>) empty_loop)) = []"
    by (simp add: empty_loop_def)
  from a b c show ?thesis by blast
qed

end
